theory Spec2Isabelle
  imports Complex_Main
begin

section \<open>JavaScript values as the server and the analyzer see them\<close>

text \<open>
  Both programs work on values produced by \<^verbatim>\<open>JSON.parse\<close> (request bodies, lines of
  \<^verbatim>\<open>events.jsonl\<close>) and on \<^verbatim>\<open>undefined\<close>, which a read of a missing property yields.
  A number of a parsed value is the rational value of a finite IEEE double (\<open>-0\<close> is
  not told apart from \<open>0\<close>; an infinite number, which \<^verbatim>\<open>JSON.parse\<close> yields only for
  a literal beyond the double range, is not a parsed value here). A string is the UTF-8
  bytes of the JavaScript string, a lone surrogate in its three-byte form. An object is
  the list of its own properties with distinct keys; every read is by key, so the order
  of the list (insertion order) carries no meaning.
\<close>

datatype json =
    JUndef
  | JNull
  | JBool bool
  | JNum rat
  | JStr string
  | JArr "json list"
  | JObj "(string \<times> json) list"

text \<open>The exceptions the modelled code can raise, and the HTTP failures the handlers
  turn them into (\<^verbatim>\<open>res.status(c).json({ error: m })\<close>).\<close>

datatype error = TypeError | SyntaxError | IOError

datatype http_error = Http nat string

definition bindE :: "'e + 'a \<Rightarrow> ('a \<Rightarrow> 'e + 'b) \<Rightarrow> 'e + 'b" where
  "bindE m f = (case m of Inl e \<Rightarrow> Inl e | Inr x \<Rightarrow> f x)"

fun mapE :: "('a \<Rightarrow> 'e + 'b) \<Rightarrow> 'a list \<Rightarrow> 'e + 'b list" where
  "mapE f [] = Inr []"
| "mapE f (x # xs) =
     (case f x of
        Inl e \<Rightarrow> Inl e
      | Inr y \<Rightarrow> (case mapE f xs of Inl e \<Rightarrow> Inl e | Inr ys \<Rightarrow> Inr (y # ys)))"

fun filterE :: "('a \<Rightarrow> 'e + bool) \<Rightarrow> 'a list \<Rightarrow> 'e + 'a list" where
  "filterE f [] = Inr []"
| "filterE f (x # xs) =
     (case f x of
        Inl e \<Rightarrow> Inl e
      | Inr b \<Rightarrow>
          (case filterE f xs of Inl e \<Rightarrow> Inl e | Inr ys \<Rightarrow> Inr (if b then x # ys else ys)))"

text \<open>\<^verbatim>\<open>Boolean(v)\<close>, the test behind \<^verbatim>\<open>!v\<close>, \<^verbatim>\<open>v || d\<close>, \<^verbatim>\<open>if (v)\<close> and
  \<^verbatim>\<open>.filter(Boolean)\<close>.\<close>

fun truthy :: "json \<Rightarrow> bool" where
  "truthy JUndef = False"
| "truthy JNull = False"
| "truthy (JBool b) = b"
| "truthy (JNum n) = (n \<noteq> 0)"
| "truthy (JStr s) = (s \<noteq> [])"
| "truthy (JArr xs) = True"
| "truthy (JObj kvs) = True"

text \<open>\<^verbatim>\<open>Array.isArray(v)\<close>.\<close>

fun isArray :: "json \<Rightarrow> bool" where
  "isArray (JArr xs) = True"
| "isArray v = False"

text \<open>\<^verbatim>\<open>!v\<close> and \<^verbatim>\<open>a || b\<close>.\<close>

definition js_not :: "json \<Rightarrow> bool" where
  "js_not v = (\<not> truthy v)"

definition js_or :: "json \<Rightarrow> json \<Rightarrow> json" where
  "js_or a b = (if truthy a then a else b)"

text \<open>
  \<^verbatim>\<open>v.name\<close> for the property names the two programs read (\<^verbatim>\<open>events\<close>,
  \<^verbatim>\<open>event_name\<close>, \<^verbatim>\<open>properties\<close>, \<^verbatim>\<open>price\<close>, \<^verbatim>\<open>rate\<close>, \<^verbatim>\<open>user_id\<close>,
  \<^verbatim>\<open>session_id\<close>, ...): none of them is a built-in property of arrays, strings, numbers
  or booleans, so only an object can own one. Reading a property of \<^verbatim>\<open>undefined\<close> or
  \<^verbatim>\<open>null\<close> throws a TypeError.
\<close>

fun get_prop :: "json \<Rightarrow> string \<Rightarrow> error + json" where
  "get_prop JUndef k = Inl TypeError"
| "get_prop JNull k = Inl TypeError"
| "get_prop (JObj kvs) k = (case map_of kvs k of None \<Rightarrow> Inr JUndef | Some v \<Rightarrow> Inr v)"
| "get_prop v k = Inr JUndef"

text \<open>\<^verbatim>\<open>obj[k] = v\<close> on an object literal: an existing property keeps its place, a new
  one goes last.\<close>

fun set_prop :: "string \<Rightarrow> 'a \<Rightarrow> (string \<times> 'a) list \<Rightarrow> (string \<times> 'a) list" where
  "set_prop k v [] = [(k, v)]"
| "set_prop k v (p # ps) = (if fst p = k then (k, v) # ps else p # set_prop k v ps)"

subsection \<open>Strings\<close>

text \<open>The code points of a string, each as its UTF-8 bytes, and its UTF-16 code units,
  which are what JavaScript indexes: a code point of four bytes is a pair of
  surrogates.\<close>

definition utf8_tail :: "char \<Rightarrow> nat" where
  "utf8_tail c =
     (let n = (of_char c :: nat) in
      if 240 \<le> n then 3 else if 224 \<le> n then 2 else if 192 \<le> n then 1 else 0)"

fun code_points :: "string \<Rightarrow> string list" where
  "code_points [] = []"
| "code_points (c # cs) = (c # take (utf8_tail c) cs) # code_points (drop (utf8_tail c) cs)"

definition utf16_pair :: "string \<Rightarrow> string list" where
  "utf16_pair cp =
     (let b = map (of_char :: char \<Rightarrow> nat) cp;
          v = (b ! 0 mod 8) * 262144 + (b ! 1 mod 64) * 4096 + (b ! 2 mod 64) * 64
                + b ! 3 mod 64 - 65536;
          enc = (\<lambda>u. [char_of (224 + u div 4096), char_of (128 + u div 64 mod 64),
                      char_of (128 + u mod 64)])
      in [enc (55296 + v div 1024), enc (56320 + v mod 1024)])"

definition utf16_units :: "string \<Rightarrow> string list" where
  "utf16_units s =
     concat (map (\<lambda>cp. if length cp = 4 then utf16_pair cp else [cp]) (code_points s))"

text \<open>
  The white space that \<^verbatim>\<open>parseInt\<close>, \<^verbatim>\<open>Number\<close> and \<^verbatim>\<open>trim\<close> strip: tab, line
  feed, vertical tab, form feed, carriage return, space, U+00A0, U+1680, U+2000 to
  U+200A, U+2028, U+2029, U+202F, U+205F, U+3000 and U+FEFF.
\<close>

definition white_space :: "string list" where
  "white_space =
     [[CHR 0x09], [CHR 0x0A], [CHR 0x0B], [CHR 0x0C], [CHR 0x0D], [CHR 0x20],
      [CHR 0xC2, CHR 0xA0], [CHR 0xE1, CHR 0x9A, CHR 0x80],
      [CHR 0xE2, CHR 0x80, CHR 0x80], [CHR 0xE2, CHR 0x80, CHR 0x81],
      [CHR 0xE2, CHR 0x80, CHR 0x82], [CHR 0xE2, CHR 0x80, CHR 0x83],
      [CHR 0xE2, CHR 0x80, CHR 0x84], [CHR 0xE2, CHR 0x80, CHR 0x85],
      [CHR 0xE2, CHR 0x80, CHR 0x86], [CHR 0xE2, CHR 0x80, CHR 0x87],
      [CHR 0xE2, CHR 0x80, CHR 0x88], [CHR 0xE2, CHR 0x80, CHR 0x89],
      [CHR 0xE2, CHR 0x80, CHR 0x8A], [CHR 0xE2, CHR 0x80, CHR 0xA8],
      [CHR 0xE2, CHR 0x80, CHR 0xA9], [CHR 0xE2, CHR 0x80, CHR 0xAF],
      [CHR 0xE2, CHR 0x81, CHR 0x9F], [CHR 0xE3, CHR 0x80, CHR 0x80],
      [CHR 0xEF, CHR 0xBB, CHR 0xBF]]"

definition is_space :: "string \<Rightarrow> bool" where
  "is_space cp = (cp \<in> set white_space)"

definition drop_space :: "string \<Rightarrow> string" where
  "drop_space s = concat (dropWhile is_space (code_points s))"

definition trim :: "string \<Rightarrow> string" where
  "trim s = concat (rev (dropWhile is_space (rev (dropWhile is_space (code_points s)))))"

text \<open>Decimal digits of an array index, as the keys of an array or string are named.\<close>

fun show_nat :: "nat \<Rightarrow> string" where
  "show_nat n =
     (if n < 10 then [char_of (48 + n)]
      else show_nat (n div 10) @ [char_of (48 + n mod 10)])"

declare show_nat.simps [simp del]

text \<open>
  The own enumerable properties that \<^verbatim>\<open>{...v}\<close> copies: those of an object, the
  indexed elements of an array, the indexed code units of a string, and none for any
  other value.
\<close>

fun spread :: "json \<Rightarrow> (string \<times> json) list" where
  "spread (JObj kvs) = kvs"
| "spread (JArr xs) = map (\<lambda>i. (show_nat i, xs ! i)) [0..<length xs]"
| "spread (JStr s) =
     map (\<lambda>i. (show_nat i, JStr (utf16_units s ! i))) [0..<length (utf16_units s)]"
| "spread v = []"

text \<open>
  What \<^verbatim>\<open>JSON.parse(JSON.stringify(v))\<close> gives back: a property whose value is
  \<^verbatim>\<open>undefined\<close> is left out of an object, and \<^verbatim>\<open>undefined\<close> inside an array is
  written as \<^verbatim>\<open>null\<close>.
\<close>

fun stored :: "json \<Rightarrow> json" where
  "stored (JArr xs) = JArr (map (\<lambda>x. if x = JUndef then JNull else stored x) xs)"
| "stored (JObj kvs) =
     JObj (map (\<lambda>(k, x). (k, stored x)) (filter (\<lambda>(k, x). x \<noteq> JUndef) kvs))"
| "stored v = v"

subsection \<open>Numbers\<close>

text \<open>
  A number as the programs compute it: a finite double, \<^verbatim>\<open>NaN\<close>, an infinity, or
  \<open>Coerced\<close>, a number that came out of converting a string or an object inside a sum,
  whose value is not modelled.
\<close>

datatype js_num = Num rat | NaN | Infinity | Minus_infinity | Coerced

text \<open>
  The double nearest to a rational, ties to the even significand: 53 significant bits,
  exponents from \<open>-1022\<close> (below it the spacing stays \<open>2 ^ -1074\<close>, so small values round
  to subnormals or to zero), and an infinity from \<open>2 ^ 1024\<close> on. Every arithmetic
  operation of the source is its exact result rounded in this way.
\<close>

function bit_length :: "int \<Rightarrow> nat" where
  "bit_length n = (if n \<le> 0 then 0 else Suc (bit_length (n div 2)))"
  by pat_completeness auto
termination
  by (relation "measure nat") auto

declare bit_length.simps [simp del]

definition pow2 :: "int \<Rightarrow> rat" where
  "pow2 k = (if 0 \<le> k then 2 ^ nat k else 1 / 2 ^ nat (- k))"

definition floor_log2 :: "rat \<Rightarrow> int" where
  "floor_log2 a =
     (if 1 \<le> a then int (bit_length \<lfloor>a\<rfloor>) - 1
      else - int (bit_length (\<lceil>1 / a\<rceil> - 1)))"

definition round_half_even :: "rat \<Rightarrow> int" where
  "round_half_even m =
     (let f = \<lfloor>m\<rfloor>; d = m - of_int f in
      if d < 1 / 2 then f else if 1 / 2 < d then f + 1 else if even f then f else f + 1)"

definition to_double :: "rat \<Rightarrow> js_num" where
  "to_double x =
     (if x = 0 then Num 0
      else
        let a = \<bar>x\<bar>;
            e = max (floor_log2 a) (- 1022);
            q = pow2 (e - 52);
            r = of_int (round_half_even (a / q)) * q
        in if pow2 1024 \<le> r then (if x < 0 then Minus_infinity else Infinity)
           else Num (if x < 0 then - r else r))"

subsection \<open>Conversions to string and to number\<close>

text \<open>The primitive values: everything but arrays and objects.\<close>

fun is_primitive :: "json \<Rightarrow> bool" where
  "is_primitive (JArr xs) = False"
| "is_primitive (JObj kvs) = False"
| "is_primitive v = True"

text \<open>
  Converting an object to a primitive (for a property key, a template literal, \<^verbatim>\<open>==\<close>
  or \<^verbatim>\<open>+\<close>) calls its \<^verbatim>\<open>toString\<close>. A parsed object that owns a property named
  \<^verbatim>\<open>toString\<close> hides the inherited method behind a value that cannot be called, and the
  conversion throws a TypeError; an array converts by joining its converted elements.
\<close>

fun stringifiable :: "json \<Rightarrow> bool" where
  "stringifiable (JObj kvs) = (map_of kvs ''toString'' = None)"
| "stringifiable (JArr xs) = list_all stringifiable xs"
| "stringifiable v = True"

fun join_comma :: "string list \<Rightarrow> string" where
  "join_comma [] = []"
| "join_comma [s] = s"
| "join_comma (s # ss) = s @ '','' @ join_comma ss"

text \<open>\<^verbatim>\<open>String(v)\<close> for a value that converts without throwing. How a number prints
  (\<^verbatim>\<open>Number.prototype.toString\<close>) is the parameter \<open>fmt\<close>.\<close>

fun js_to_string :: "(rat \<Rightarrow> string) \<Rightarrow> json \<Rightarrow> string" where
  "js_to_string fmt JUndef = ''undefined''"
| "js_to_string fmt JNull = ''null''"
| "js_to_string fmt (JBool b) = (if b then ''true'' else ''false'')"
| "js_to_string fmt (JNum n) = fmt n"
| "js_to_string fmt (JStr s) = s"
| "js_to_string fmt (JArr xs) =
     join_comma (map (\<lambda>x. if x = JUndef \<or> x = JNull then [] else js_to_string fmt x) xs)"
| "js_to_string fmt (JObj kvs) = ''[object Object]''"

definition to_key :: "(rat \<Rightarrow> string) \<Rightarrow> json \<Rightarrow> error + string" where
  "to_key fmt v = (if stringifiable v then Inr (js_to_string fmt v) else Inl TypeError)"

definition digit_val :: "char \<Rightarrow> nat" where
  "digit_val c =
     (let n = of_char c in
      if 48 \<le> n \<and> n \<le> 57 then n - 48
      else if 97 \<le> n \<and> n \<le> 102 then n - 87
      else if 65 \<le> n \<and> n \<le> 70 then n - 55
      else 16)"

definition is_digit :: "nat \<Rightarrow> char \<Rightarrow> bool" where
  "is_digit radix c = (digit_val c < radix)"

definition digits_value :: "nat \<Rightarrow> string \<Rightarrow> int" where
  "digits_value radix ds = foldl (\<lambda>a c. a * int radix + int (digit_val c)) 0 ds"

text \<open>
  \<^verbatim>\<open>parseInt(s)\<close> with no radix: leading white space and a sign are skipped, a
  \<^verbatim>\<open>0x\<close> prefix selects base 16, and the longest run of digits is read; with no digit
  the result is \<^verbatim>\<open>NaN\<close>, here \<open>None\<close>. The result is kept as the integer read: the
  source rounds it to a double, which is zero for no other integer than zero and, as an
  argument of \<^verbatim>\<open>slice\<close>, selects the same lines.
\<close>

definition parseInt :: "string \<Rightarrow> int option" where
  "parseInt s =
     (let s1 = drop_space s;
          neg = (s1 \<noteq> [] \<and> hd s1 = CHR ''-'');
          s2 = (if s1 \<noteq> [] \<and> (hd s1 = CHR ''-'' \<or> hd s1 = CHR ''+'') then tl s1 else s1);
          hex = (length s2 \<ge> 2 \<and> hd s2 = CHR ''0'' \<and> (s2 ! 1 = CHR ''x'' \<or> s2 ! 1 = CHR ''X''));
          radix = (if hex then 16 else 10);
          s3 = (if hex then drop 2 s2 else s2);
          ds = takeWhile (is_digit radix) s3
      in if ds = [] then None
         else Some ((if neg then - 1 else 1) * digits_value radix ds))"

text \<open>
  The number a string converts to (\<^verbatim>\<open>Number(s)\<close>, as \<^verbatim>\<open>==\<close> applies it): the trimmed
  string is empty (zero), a binary, octal or hexadecimal integer literal, a signed
  \<^verbatim>\<open>Infinity\<close>, or a signed decimal literal with optional fraction and exponent, whose
  value is rounded to a double; any other text is \<^verbatim>\<open>NaN\<close>.
\<close>

definition scale10 :: "rat \<Rightarrow> int \<Rightarrow> rat" where
  "scale10 x k = (if 0 \<le> k then x * 10 ^ nat k else x / 10 ^ nat (- k))"

definition non_decimal :: "string \<Rightarrow> (nat \<times> string) option" where
  "non_decimal t =
     (case t of
        a # b # r \<Rightarrow>
          if a = CHR ''0'' \<and> (b = CHR ''x'' \<or> b = CHR ''X'') then Some (16, r)
          else if a = CHR ''0'' \<and> (b = CHR ''o'' \<or> b = CHR ''O'') then Some (8, r)
          else if a = CHR ''0'' \<and> (b = CHR ''b'' \<or> b = CHR ''B'') then Some (2, r)
          else None
      | _ \<Rightarrow> None)"

definition signed_digits :: "string \<Rightarrow> int option" where
  "signed_digits s =
     (let neg = (s \<noteq> [] \<and> hd s = CHR ''-'');
          ds = (if s \<noteq> [] \<and> (hd s = CHR ''-'' \<or> hd s = CHR ''+'') then tl s else s)
      in if ds \<noteq> [] \<and> list_all (is_digit 10) ds
         then Some ((if neg then - 1 else 1) * digits_value 10 ds)
         else None)"

definition is_exp_mark :: "char \<Rightarrow> bool" where
  "is_exp_mark c = (c = CHR ''e'' \<or> c = CHR ''E'')"

definition unsigned_decimal :: "string \<Rightarrow> rat option" where
  "unsigned_decimal s =
     (let mant = takeWhile (\<lambda>c. \<not> is_exp_mark c) s;
          ex = dropWhile (\<lambda>c. \<not> is_exp_mark c) s;
          ip = takeWhile (\<lambda>c. c \<noteq> CHR ''.'') mant;
          fp = drop 1 (dropWhile (\<lambda>c. c \<noteq> CHR ''.'') mant);
          expo = (if ex = [] then Some 0 else signed_digits (tl ex))
      in if list_all (is_digit 10) (ip @ fp) \<and> ip @ fp \<noteq> []
         then (case expo of
                 None \<Rightarrow> None
               | Some k \<Rightarrow> Some (scale10 (of_int (digits_value 10 (ip @ fp))) (k - int (length fp))))
         else None)"

definition string_to_number :: "string \<Rightarrow> js_num" where
  "string_to_number s =
     (let t = trim s in
      if t = [] then Num 0
      else (case non_decimal t of
              Some (radix, ds) \<Rightarrow>
                if ds \<noteq> [] \<and> list_all (is_digit radix) ds
                then to_double (of_int (digits_value radix ds)) else NaN
            | None \<Rightarrow>
                let neg = (hd t = CHR ''-'');
                    body = (if hd t = CHR ''-'' \<or> hd t = CHR ''+'' then tl t else t)
                in if body = ''Infinity'' then (if neg then Minus_infinity else Infinity)
                   else (case unsigned_decimal body of
                           None \<Rightarrow> NaN
                         | Some x \<Rightarrow> to_double (if neg then - x else x))))"

text \<open>
  \<^verbatim>\<open>v == q\<close> for a string \<open>q\<close> (the right operand is always the \<^verbatim>\<open>:userId\<close> path
  parameter): \<^verbatim>\<open>undefined\<close> and \<^verbatim>\<open>null\<close> equal no string, a string is compared as
  it is, a number with the number the string converts to, a boolean as the number 1 or 0,
  and an array or object through its string conversion.
\<close>

definition loose_eq :: "(rat \<Rightarrow> string) \<Rightarrow> json \<Rightarrow> string \<Rightarrow> error + bool" where
  "loose_eq fmt v q =
     (case v of
        JUndef \<Rightarrow> Inr False
      | JNull \<Rightarrow> Inr False
      | JStr s \<Rightarrow> Inr (s = q)
      | JNum n \<Rightarrow> Inr (string_to_number q = Num n)
      | JBool b \<Rightarrow> Inr (string_to_number q = Num (if b then 1 else 0))
      | _ \<Rightarrow> if stringifiable v then Inr (js_to_string fmt v = q) else Inl TypeError)"

text \<open>\<^verbatim>\<open>xs.slice(k)\<close>: a negative \<open>k\<close> counts from the end.\<close>

definition js_slice_from :: "int \<Rightarrow> 'a list \<Rightarrow> 'a list" where
  "js_slice_from k xs =
     (let n = int (length xs);
          start = (if k < 0 then max (n + k) 0 else min k n)
      in drop (nat start) xs)"

text \<open>\<^verbatim>\<open>new Set(xs).size\<close>: primitives are one element per value, every array or
  object of a parsed log is an element of its own.\<close>

definition set_size :: "json list \<Rightarrow> nat" where
  "set_size xs =
     length (remdups (filter is_primitive xs)) + length (filter (\<lambda>x. \<not> is_primitive x) xs)"

subsection \<open>Arithmetic on values\<close>

text \<open>
  The running value of a \<^verbatim>\<open>reduce((a, b) => a + b, 0)\<close> is a number, or a string once
  \<^verbatim>\<open>+\<close> has concatenated (the characters are not modelled).
\<close>

datatype js_acc = Number js_num | String

text \<open>\<^verbatim>\<open>a + b\<close> on two numbers.\<close>

fun num_add :: "js_num \<Rightarrow> js_num \<Rightarrow> js_num" where
  "num_add (Num a) (Num b) = to_double (a + b)"
| "num_add NaN y = NaN"
| "num_add x NaN = NaN"
| "num_add Infinity Minus_infinity = NaN"
| "num_add Minus_infinity Infinity = NaN"
| "num_add Coerced y = Coerced"
| "num_add x Coerced = Coerced"
| "num_add Infinity y = Infinity"
| "num_add x Infinity = Infinity"
| "num_add Minus_infinity y = Minus_infinity"
| "num_add x Minus_infinity = Minus_infinity"

text \<open>\<^verbatim>\<open>acc + x\<close>: a string or object operand makes it a concatenation (converting an
  object may throw), otherwise both sides are added as numbers.\<close>

fun js_plus :: "js_acc \<Rightarrow> json \<Rightarrow> error + js_acc" where
  "js_plus acc (JStr s) = Inr String"
| "js_plus acc (JArr xs) = (if stringifiable (JArr xs) then Inr String else Inl TypeError)"
| "js_plus acc (JObj kvs) = (if stringifiable (JObj kvs) then Inr String else Inl TypeError)"
| "js_plus String v = Inr String"
| "js_plus (Number a) JUndef = Inr (Number (num_add a NaN))"
| "js_plus (Number a) JNull = Inr (Number (num_add a (Num 0)))"
| "js_plus (Number a) (JBool b) = Inr (Number (num_add a (Num (if b then 1 else 0))))"
| "js_plus (Number a) (JNum n) = Inr (Number (num_add a (Num n)))"

text \<open>\<^verbatim>\<open>x / n\<close> for a count \<open>n > 0\<close>, on a number and on a running value.\<close>

fun num_div :: "js_num \<Rightarrow> nat \<Rightarrow> js_num" where
  "num_div (Num a) n = to_double (a / of_nat n)"
| "num_div x n = x"

fun acc_div :: "js_acc \<Rightarrow> nat \<Rightarrow> js_num" where
  "acc_div (Number x) n = num_div x n"
| "acc_div String n = Coerced"

text \<open>\<^verbatim>\<open>a / b\<close> and \<^verbatim>\<open>x * 100\<close> for two counts and their quotient.\<close>

definition count_div :: "nat \<Rightarrow> nat \<Rightarrow> js_num" where
  "count_div a b =
     (if b = 0 then (if a = 0 then NaN else Infinity) else to_double (of_nat a / of_nat b))"

fun times100 :: "js_num \<Rightarrow> js_num" where
  "times100 (Num a) = to_double (a * 100)"
| "times100 x = x"

text \<open>The value that \<^verbatim>\<open>x.toFixed(d)\<close> prints and that \<^verbatim>\<open>Math.round(x)\<close> returns: the
  nearest number with \<open>d\<close> decimals (with none for \<^verbatim>\<open>Math.round\<close>) to the exact value of
  the double, a tie going away from zero for \<^verbatim>\<open>toFixed\<close> and up for \<^verbatim>\<open>Math.round\<close>.\<close>

fun toFixed :: "nat \<Rightarrow> js_num \<Rightarrow> js_num" where
  "toFixed d (Num x) =
     (if x < 0 then Num (- (of_int \<lfloor>(- x) * 10 ^ d + 1 / 2\<rfloor> / 10 ^ d))
      else Num (of_int \<lfloor>x * 10 ^ d + 1 / 2\<rfloor> / 10 ^ d))"
| "toFixed d x = x"

fun js_round :: "js_num \<Rightarrow> js_num" where
  "js_round (Num x) = Num (of_int \<lfloor>x + 1 / 2\<rfloor>)"
| "js_round x = x"

text \<open>\<^verbatim>\<open>Number(v)\<close> as \<^verbatim>\<open>Math.min\<close> and \<^verbatim>\<open>Math.max\<close> apply it to an argument.\<close>

fun to_number :: "json \<Rightarrow> error + js_num" where
  "to_number JUndef = Inr NaN"
| "to_number JNull = Inr (Num 0)"
| "to_number (JBool b) = Inr (Num (if b then 1 else 0))"
| "to_number (JNum n) = Inr (Num n)"
| "to_number (JStr s) = Inr Coerced"
| "to_number v = (if stringifiable v then Inr Coerced else Inl TypeError)"

fun num_min :: "js_num \<Rightarrow> js_num \<Rightarrow> js_num" where
  "num_min (Num a) (Num b) = Num (min a b)"
| "num_min NaN y = NaN"
| "num_min x NaN = NaN"
| "num_min Coerced y = Coerced"
| "num_min x Coerced = Coerced"
| "num_min Minus_infinity y = Minus_infinity"
| "num_min x Minus_infinity = Minus_infinity"
| "num_min Infinity y = y"
| "num_min x Infinity = x"

fun num_max :: "js_num \<Rightarrow> js_num \<Rightarrow> js_num" where
  "num_max (Num a) (Num b) = Num (max a b)"
| "num_max NaN y = NaN"
| "num_max x NaN = NaN"
| "num_max Coerced y = Coerced"
| "num_max x Coerced = Coerced"
| "num_max Infinity y = Infinity"
| "num_max x Infinity = Infinity"
| "num_max Minus_infinity y = y"
| "num_max x Minus_infinity = x"

section \<open>The persisted state\<close>

text \<open>
  \<^verbatim>\<open>events.jsonl\<close> is read everywhere as \<^verbatim>\<open>data.trim().split('\n')\<close>: a list of lines.
  A line is empty, or it is text on which \<^verbatim>\<open>JSON.parse\<close> either returns a value or
  throws a SyntaxError.
\<close>

datatype line = Blank | Text "json option"

text \<open>
  \<^verbatim>\<open>stats.json\<close> holds the object that \<^verbatim>\<open>init\<close> or \<^verbatim>\<open>updateStats\<close> wrote. Its
  \<^verbatim>\<open>unique_users\<close> property is an array, or some other object (\<^verbatim>\<open>init\<close> writes
  \<^verbatim>\<open>new Set()\<close>, which \<^verbatim>\<open>JSON.stringify\<close> renders as \<^verbatim>\<open>{}\<close>), or is missing.
\<close>

datatype users_field = Users_missing | Users_object "(string \<times> json) list" | Users_array "json list"

record stats =
  total_sessions :: int
  total_events :: int
  total_calculations :: int
  total_shares :: int
  unique_users :: users_field

record store =
  events_file :: "line list"
  stats_file :: stats

text \<open>Which file-system calls of one request succeed; a failing call throws.\<close>

record io =
  append_ok :: bool
  stats_read_ok :: bool
  stats_write_ok :: bool

text \<open>\<^verbatim>\<open>init\<close> on a data directory with neither file.\<close>

definition init :: store where
  "init = \<lparr> events_file = [],
            stats_file = \<lparr> total_sessions = 0, total_events = 0, total_calculations = 0,
                           total_shares = 0, unique_users = Users_object [] \<rparr> \<rparr>"

section \<open>Ingestion: POST /api/analytics and updateStats\<close>

text \<open>\<^verbatim>\<open>xs.includes(v)\<close> compares with SameValueZero: primitives by value, arrays and
  objects by identity. The stored users come from one \<^verbatim>\<open>JSON.parse\<close> and the new
  \<^verbatim>\<open>user_id\<close> from another, so an array or object is never found.\<close>

definition js_includes :: "json list \<Rightarrow> json \<Rightarrow> bool" where
  "js_includes xs v = (is_primitive v \<and> v \<in> set xs)"

text \<open>The body of \<^verbatim>\<open>data.events.forEach\<close> in \<^verbatim>\<open>updateStats\<close>.\<close>

definition count_event :: "stats \<Rightarrow> json \<Rightarrow> error + stats" where
  "count_event st event =
     bindE (get_prop event ''event_name'') (\<lambda>name.
       let st1 = (if name = JStr ''calculation_performed''
                  then st\<lparr>total_calculations := total_calculations st + 1\<rparr> else st);
           st2 = (if name = JStr ''share_clicked''
                  then st1\<lparr>total_shares := total_shares st1 + 1\<rparr> else st1)
       in Inr st2)"

fun count_events :: "stats \<Rightarrow> json list \<Rightarrow> error + stats" where
  "count_events st [] = Inr st"
| "count_events st (e # es) =
     (case count_event st e of Inl err \<Rightarrow> Inl err | Inr st' \<Rightarrow> count_events st' es)"

text \<open>The \<^verbatim>\<open>if (data.user_id) { ... }\<close> block. Calling \<^verbatim>\<open>includes\<close> on an object
  that is not an array throws: it has no such method.\<close>

definition add_user :: "stats \<Rightarrow> json \<Rightarrow> error + stats" where
  "add_user st uid =
     (if truthy uid then
        (case (case unique_users st of Users_missing \<Rightarrow> Users_array [] | u \<Rightarrow> u) of
           Users_array xs \<Rightarrow>
             if js_includes xs uid then Inr (st\<lparr>unique_users := Users_array xs\<rparr>)
             else Inr (st\<lparr>unique_users := Users_array (xs @ [uid])\<rparr>)
         | u \<Rightarrow> Inl TypeError)
      else Inr st)"

text \<open>\<^verbatim>\<open>data.events.length\<close> and \<^verbatim>\<open>data.events.forEach\<close> need an array.\<close>

fun elems :: "json \<Rightarrow> error + json list" where
  "elems (JArr xs) = Inr xs"
| "elems v = Inl TypeError"

text \<open>The \<^verbatim>\<open>try\<close> block of \<^verbatim>\<open>updateStats\<close>: the new content of the stats file, or
  the exception.\<close>

definition updateStats_try :: "io \<Rightarrow> json \<Rightarrow> stats \<Rightarrow> error + stats" where
  "updateStats_try env data st0 =
     (if \<not> stats_read_ok env then Inl IOError
      else
        bindE (get_prop data ''events'') (\<lambda>evs.
        bindE (elems evs) (\<lambda>es.
        let st1 = st0\<lparr>total_sessions := total_sessions st0 + 1\<rparr>;
            st2 = st1\<lparr>total_events := total_events st1 + int (length es)\<rparr>
        in
        bindE (count_events st2 es) (\<lambda>st3.
        bindE (get_prop data ''user_id'') (\<lambda>uid.
        bindE (add_user st3 uid) (\<lambda>st4.
        if stats_write_ok env then Inr st4 else Inl IOError))))))"

text \<open>\<^verbatim>\<open>updateStats\<close>: the \<^verbatim>\<open>catch\<close> logs the exception and returns; the stats file
  is then as it was.\<close>

definition updateStats :: "io \<Rightarrow> json \<Rightarrow> store \<Rightarrow> store" where
  "updateStats env data s =
     (case updateStats_try env data (stats_file s) of
        Inl err \<Rightarrow> s
      | Inr st \<Rightarrow> s\<lparr>stats_file := st\<rparr>)"

text \<open>
  \<^verbatim>\<open>enrichedData\<close>. The clock is a parameter: \<open>clock 0\<close> is the \<^verbatim>\<open>new Date()\<close> of
  \<^verbatim>\<open>received_at\<close>, \<open>clock (i + 1)\<close> that of the event at index \<open>i\<close>.
\<close>

definition enrich_event :: "(nat \<Rightarrow> string) \<Rightarrow> nat \<Rightarrow> json \<Rightarrow> json" where
  "enrich_event clock i event =
     JObj (set_prop ''processed_at'' (JStr (clock (i + 1))) (spread event))"

definition enrich :: "(nat \<Rightarrow> string) \<Rightarrow> json \<Rightarrow> json \<Rightarrow> json \<Rightarrow> json list \<Rightarrow> json" where
  "enrich clock session_id user_id user_info events =
     JObj [(''session_id'', session_id),
           (''user_id'', user_id),
           (''user_info'', user_info),
           (''received_at'', JStr (clock 0)),
           (''events'', JArr (map (\<lambda>i. enrich_event clock i (events ! i)) [0..<length events]))]"

record ingest_reply =
  success :: bool
  events_received :: nat

text \<open>
  The handler of \<^verbatim>\<open>POST /api/analytics\<close> on the parsed request body. Destructuring a
  body that is \<^verbatim>\<open>undefined\<close> or \<^verbatim>\<open>null\<close> throws; so does a failing
  \<^verbatim>\<open>appendFile\<close>, and the template literal of the final \<^verbatim>\<open>console.log\<close> when
  \<^verbatim>\<open>session_id\<close> does not convert to a string. Every exception ends in the handler's
  \<^verbatim>\<open>catch\<close> and a 500 reply.
\<close>

definition ingest ::
  "io \<Rightarrow> (nat \<Rightarrow> string) \<Rightarrow> json \<Rightarrow> store \<Rightarrow> (http_error + ingest_reply) \<times> store" where
  "ingest env clock body s =
     (case bindE (get_prop body ''session_id'') (\<lambda>session_id.
           bindE (get_prop body ''user_id'') (\<lambda>user_id.
           bindE (get_prop body ''user_info'') (\<lambda>user_info.
           bindE (get_prop body ''events'') (\<lambda>events.
             Inr (session_id, user_id, user_info, events))))) of
        Inl err \<Rightarrow> (Inl (Http 500 ''Internal server error''), s)
      | Inr (session_id, user_id, user_info, events) \<Rightarrow>
          if js_not events \<or> \<not> isArray events
          then (Inl (Http 400 ''Invalid events data''), s)
          else
            (case events of
               JArr evs \<Rightarrow>
                 let enrichedData = enrich clock session_id user_id user_info evs in
                 if \<not> append_ok env
                 then (Inl (Http 500 ''Internal server error''), s)
                 else
                   let s1 = s\<lparr>events_file := events_file s @ [Text (Some (stored enrichedData))]\<rparr>;
                       s2 = updateStats env enrichedData s1
                   in if stringifiable session_id
                      then (Inr \<lparr> success = True, events_received = length evs \<rparr>, s2)
                      else (Inl (Http 500 ''Internal server error''), s2)
             | v \<Rightarrow> (Inl (Http 400 ''Invalid events data''), s)))"

section \<open>Reading the log\<close>

text \<open>\<^verbatim>\<open>data.trim().split('\n').filter(line => line)\<close> and \<^verbatim>\<open>JSON.parse(line)\<close>.\<close>

definition nonblank :: "line list \<Rightarrow> line list" where
  "nonblank ls = filter (\<lambda>l. l \<noteq> Blank) ls"

fun JSON_parse :: "line \<Rightarrow> error + json" where
  "JSON_parse (Text (Some v)) = Inr v"
| "JSON_parse (Text None) = Inl SyntaxError"
| "JSON_parse Blank = Inl SyntaxError"

definition readAll :: "store \<Rightarrow> error + json list" where
  "readAll s = mapE JSON_parse (nonblank (events_file s))"

subsection \<open>GET /api/events/recent\<close>

record recent_reply =
  count :: nat
  events :: "json list"

text \<open>The \<^verbatim>\<open>limit\<close> query parameter is absent or a string;
  \<^verbatim>\<open>parseInt(undefined)\<close> reads the text \<^verbatim>\<open>undefined\<close>.\<close>

definition recent_limit :: "string option \<Rightarrow> int" where
  "recent_limit q =
     (case parseInt (case q of None \<Rightarrow> ''undefined'' | Some t \<Rightarrow> t) of
        None \<Rightarrow> 100
      | Some n \<Rightarrow> if n = 0 then 100 else n)"

definition recent :: "string option \<Rightarrow> store \<Rightarrow> http_error + recent_reply" where
  "recent q s =
     (let limit = recent_limit q;
          lines = nonblank (events_file s)
      in case mapE JSON_parse (js_slice_from (- limit) lines) of
           Inl err \<Rightarrow> Inl (Http 500 ''Failed to read events'')
         | Inr recentEvents \<Rightarrow>
             Inr \<lparr> count = length recentEvents, events = recentEvents \<rparr>)"

subsection \<open>GET /api/user/:userId\<close>

text \<open>\<^verbatim>\<open>xs.flatMap(f)\<close> flattens one level: an array result gives its elements, any
  other result is one element.\<close>

fun flat1 :: "json \<Rightarrow> json list" where
  "flat1 (JArr xs) = xs"
| "flat1 v = [v]"

text \<open>\<^verbatim>\<open>sessions.flatMap(session => session.events)\<close>.\<close>

definition flatMap_events :: "json list \<Rightarrow> error + json list" where
  "flatMap_events sessions =
     bindE (mapE (\<lambda>session. get_prop session ''events'') sessions) (\<lambda>vs.
       Inr (concat (map flat1 vs)))"

record user_reply =
  reply_user_id :: string
  sessions_count :: nat
  reply_total_events :: nat
  sessions :: "json list"

definition user_matches :: "(rat \<Rightarrow> string) \<Rightarrow> string \<Rightarrow> json \<Rightarrow> error + bool" where
  "user_matches fmt userId session =
     bindE (get_prop session ''user_id'') (\<lambda>u. loose_eq fmt u userId)"

definition user_rollup :: "(rat \<Rightarrow> string) \<Rightarrow> string \<Rightarrow> store \<Rightarrow> http_error + user_reply" where
  "user_rollup fmt userId s =
     (case bindE (readAll s) (\<lambda>parsed.
           bindE (filterE (user_matches fmt userId) parsed) (\<lambda>userSessions.
           bindE (flatMap_events userSessions) (\<lambda>allEvents.
             Inr \<lparr> reply_user_id = userId,
                   sessions_count = length userSessions,
                   reply_total_events = length allEvents,
                   sessions = userSessions \<rparr>))) of
        Inl err \<Rightarrow> Inl (Http 500 ''Failed to read user data'')
      | Inr r \<Rightarrow> Inr r)"

subsection \<open>GET /api/dashboard\<close>

text \<open>
  The value of \<^verbatim>\<open>eventsByType[k]\<close>: a count, or text. The table starts as \<^verbatim>\<open>{}\<close>, so
  the first read of a key that names a property inherited from \<^verbatim>\<open>Object.prototype\<close>
  finds a function, \<^verbatim>\<open>+ 1\<close> turns it into text, and it stays text; an assignment to
  \<^verbatim>\<open>__proto__\<close> of a value that is no object is dropped.
\<close>

datatype tally = Count nat | Text_tally

definition object_prototype_keys :: "string list" where
  "object_prototype_keys =
     [''constructor'', ''hasOwnProperty'', ''isPrototypeOf'', ''propertyIsEnumerable'',
      ''toLocaleString'', ''toString'', ''valueOf'', ''__defineGetter__'',
      ''__defineSetter__'', ''__lookupGetter__'', ''__lookupSetter__'']"

text \<open>\<^verbatim>\<open>table[k] = (table[k] || 0) + 1\<close>.\<close>

definition bump :: "(string \<times> tally) list \<Rightarrow> string \<Rightarrow> (string \<times> tally) list" where
  "bump table k =
     (case map_of table k of
        Some (Count n) \<Rightarrow> set_prop k (Count (n + 1)) table
      | Some Text_tally \<Rightarrow> table
      | None \<Rightarrow>
          if k = ''__proto__'' then table
          else if k \<in> set object_prototype_keys then table @ [(k, Text_tally)]
          else table @ [(k, Count 1)])"

text \<open>The \<^verbatim>\<open>forEach\<close> that fills a table from the property \<open>p\<close> of each element.\<close>

fun tally_by :: "(rat \<Rightarrow> string) \<Rightarrow> (json \<Rightarrow> error + json) \<Rightarrow> (string \<times> tally) list \<Rightarrow> json list
    \<Rightarrow> error + (string \<times> tally) list" where
  "tally_by fmt p table [] = Inr table"
| "tally_by fmt p table (e # es) =
     (case bindE (p e) (to_key fmt) of
        Inl err \<Rightarrow> Inl err
      | Inr k \<Rightarrow> tally_by fmt p (bump table k) es)"

definition event_name :: "json \<Rightarrow> error + json" where
  "event_name e = get_prop e ''event_name''"

text \<open>\<^verbatim>\<open>e.event_name === name\<close> and \<^verbatim>\<open>e.properties.p\<close>.\<close>

definition is_named :: "string \<Rightarrow> json \<Rightarrow> error + bool" where
  "is_named name e = bindE (event_name e) (\<lambda>n. Inr (n = JStr name))"

definition property :: "string \<Rightarrow> json \<Rightarrow> error + json" where
  "property p e = bindE (get_prop e ''properties'') (\<lambda>props. get_prop props p)"

text \<open>\<^verbatim>\<open>calculations.reduce((sum, e) => sum + (e.properties.p || 0), 0)\<close>.\<close>

fun sum_property :: "string \<Rightarrow> js_acc \<Rightarrow> json list \<Rightarrow> error + js_acc" where
  "sum_property p acc [] = Inr acc"
| "sum_property p acc (e # es) =
     (case bindE (property p e) (\<lambda>v. js_plus acc (js_or v (JNum 0))) of
        Inl err \<Rightarrow> Inl err
      | Inr acc' \<Rightarrow> sum_property p acc' es)"

definition dashboard_average :: "string \<Rightarrow> json list \<Rightarrow> error + js_num" where
  "dashboard_average p calculations =
     (if length calculations > 0
      then bindE (sum_property p (Number (Num 0)) calculations) (\<lambda>total.
             Inr (acc_div total (length calculations)))
      else Inr (Num 0))"

record dashboard_reply =
  total_sessions_seen :: nat
  total_events_seen :: nat
  unique_users_seen :: nat
  events_by_type :: "(string \<times> tally) list"
  calculations_total :: nat
  avg_price :: js_num
  avg_rate :: js_num
  last_updated :: string

definition dashboard ::
  "(rat \<Rightarrow> string) \<Rightarrow> string \<Rightarrow> store \<Rightarrow> http_error + dashboard_reply" where
  "dashboard fmt now s =
     (case bindE (readAll s) (\<lambda>allSessions.
           bindE (flatMap_events allSessions) (\<lambda>allEvents.
           bindE (tally_by fmt event_name [] allEvents) (\<lambda>eventsByType.
           bindE (filterE (is_named ''calculation_performed'') allEvents) (\<lambda>calculations.
           bindE (dashboard_average ''price'' calculations) (\<lambda>avgPrice.
           bindE (dashboard_average ''rate'' calculations) (\<lambda>avgRate.
           bindE (mapE (\<lambda>session. get_prop session ''user_id'') allSessions) (\<lambda>uids.
             Inr \<lparr> total_sessions_seen = length allSessions,
                   total_events_seen = length allEvents,
                   unique_users_seen = set_size (filter truthy uids),
                   events_by_type = eventsByType,
                   calculations_total = length calculations,
                   avg_price = js_round avgPrice,
                   avg_rate = toFixed 2 avgRate,
                   last_updated = now \<rparr>))))))) of
        Inl err \<Rightarrow> Inl (Http 500 ''Failed to generate dashboard'')
      | Inr r \<Rightarrow> Inr r)"

section \<open>The command-line analyzer\<close>

text \<open>
  \<^verbatim>\<open>analyzeData\<close> prints a report section by section. The model returns what the
  sections up to and including the conversion section compute, with the rounding of their
  display, or the exception that ended the run before; the later sections (dates, most
  active users, recommendations) are not modelled.
\<close>

text \<open>\<^verbatim>\<open>{...event, session_id: session.session_id, user_id: session.user_id}\<close>.\<close>

definition tag_event :: "json \<Rightarrow> json \<Rightarrow> json \<Rightarrow> json" where
  "tag_event sid uid event =
     JObj (set_prop ''user_id'' uid (set_prop ''session_id'' sid (spread event)))"

text \<open>\<^verbatim>\<open>session.events.map(...)\<close>: calling \<^verbatim>\<open>map\<close> on anything but an array throws.\<close>

definition session_events :: "json \<Rightarrow> error + json list" where
  "session_events session =
     bindE (get_prop session ''events'') (\<lambda>evs.
     bindE (elems evs) (\<lambda>es.
     bindE (get_prop session ''session_id'') (\<lambda>sid.
     bindE (get_prop session ''user_id'') (\<lambda>uid.
       Inr (map (tag_event sid uid) es)))))"

text \<open>\<^verbatim>\<open>calculations.map(c => c.properties.p).filter(Boolean)\<close>.\<close>

definition truthy_values :: "string \<Rightarrow> json list \<Rightarrow> error + json list" where
  "truthy_values p calculations =
     bindE (mapE (property p) calculations) (\<lambda>vs. Inr (filter truthy vs))"

text \<open>\<^verbatim>\<open>xs.reduce((a, b) => a + b, 0) / xs.length\<close>.\<close>

fun reduce_plus :: "js_acc \<Rightarrow> json list \<Rightarrow> error + js_acc" where
  "reduce_plus acc [] = Inr acc"
| "reduce_plus acc (x # xs) =
     (case js_plus acc x of Inl err \<Rightarrow> Inl err | Inr acc' \<Rightarrow> reduce_plus acc' xs)"

definition average :: "json list \<Rightarrow> error + js_num" where
  "average xs = bindE (reduce_plus (Number (Num 0)) xs) (\<lambda>total. Inr (acc_div total (length xs)))"

text \<open>\<^verbatim>\<open>Math.min(...xs)\<close> and \<^verbatim>\<open>Math.max(...xs)\<close> for the non-empty list \<open>x # xs\<close>:
  both are called only under \<^verbatim>\<open>xs.length > 0\<close>.\<close>

fun math_min :: "json \<Rightarrow> json list \<Rightarrow> error + js_num" where
  "math_min x [] = to_number x"
| "math_min x (y # ys) =
     bindE (to_number x) (\<lambda>a. bindE (math_min y ys) (\<lambda>b. Inr (num_min a b)))"

fun math_max :: "json \<Rightarrow> json list \<Rightarrow> error + js_num" where
  "math_max x [] = to_number x"
| "math_max x (y # ys) =
     bindE (to_number x) (\<lambda>a. bindE (math_max y ys) (\<lambda>b. Inr (num_max a b)))"

text \<open>The body of \<^verbatim>\<open>if (xs.length > 0)\<close>: mean, minimum and maximum, or the mean alone.\<close>

definition mean_min_max :: "json list \<Rightarrow> error + (js_num \<times> js_num \<times> js_num) option" where
  "mean_min_max xs =
     (case xs of
        [] \<Rightarrow> Inr None
      | x # rest \<Rightarrow>
          bindE (average xs) (\<lambda>avg.
          bindE (math_min x rest) (\<lambda>lo.
          bindE (math_max x rest) (\<lambda>hi. Inr (Some (avg, lo, hi))))))"

definition mean_only :: "json list \<Rightarrow> error + js_num option" where
  "mean_only xs =
     (case xs of
        [] \<Rightarrow> Inr None
      | x # rest \<Rightarrow> bindE (average xs) (\<lambda>avg. Inr (Some avg)))"

record calc_report =
  calc_count :: nat
  price_stats :: "(js_num \<times> js_num \<times> js_num) option"
  down_payment_avg :: "js_num option"
  rate_stats :: "(js_num \<times> js_num \<times> js_num) option"
  term_avg :: "js_num option"

definition calc_section :: "json list \<Rightarrow> error + calc_report option" where
  "calc_section calculations =
     (if length calculations > 0 then
        bindE (truthy_values ''price'' calculations) (\<lambda>prices.
        bindE (truthy_values ''down_payment'' calculations) (\<lambda>downPayments.
        bindE (truthy_values ''rate'' calculations) (\<lambda>rates.
        bindE (truthy_values ''term_years'' calculations) (\<lambda>terms.
        bindE (mean_min_max prices) (\<lambda>ps.
        bindE (mean_only downPayments) (\<lambda>dp.
        bindE (mean_min_max rates) (\<lambda>rs.
        bindE (mean_only terms) (\<lambda>ts.
          Inr (Some \<lparr> calc_count = length calculations,
                      price_stats = map_option (\<lambda>(avg, lo, hi). (js_round avg, lo, hi)) ps,
                      down_payment_avg = map_option js_round dp,
                      rate_stats = map_option (\<lambda>(avg, lo, hi). (toFixed 2 avg, lo, hi)) rs,
                      term_avg = map_option (toFixed 1) ts \<rparr>)))))))))
      else Inr None)"

text \<open>The slider section: \<^verbatim>\<open>slidersByType\<close> over \<^verbatim>\<open>event.properties.slider\<close>.\<close>

definition slider_section :: "(rat \<Rightarrow> string) \<Rightarrow> json list \<Rightarrow> error + (string \<times> tally) list option" where
  "slider_section fmt sliderChanges =
     (if length sliderChanges > 0
      then bindE (tally_by fmt (property ''slider'') [] sliderChanges) (\<lambda>table. Inr (Some table))
      else Inr None)"

text \<open>\<^verbatim>\<open>eventsByType[name] || 0\<close> for a name that \<^verbatim>\<open>Object.prototype\<close> does not
  have.\<close>

definition count_of :: "(string \<times> tally) list \<Rightarrow> string \<Rightarrow> nat" where
  "count_of table name = (case map_of table name of Some (Count n) \<Rightarrow> n | _ \<Rightarrow> 0)"

text \<open>
  The conversion section: the rate \<^verbatim>\<open>calculationRate\<close> is printed under
  \<^verbatim>\<open>appOpened > 0\<close>, and \<^verbatim>\<open>shareRate\<close> inside it under \<^verbatim>\<open>shareClicks > 0\<close>;
  \<open>None\<close> is a line that is not printed.
\<close>

definition conversion_rate :: "nat \<Rightarrow> nat \<Rightarrow> nat \<Rightarrow> js_num option" where
  "conversion_rate appOpened calculationsPerformed shareClicks =
     (if appOpened > 0
      then Some (toFixed 1 (times100 (count_div calculationsPerformed appOpened)))
      else None)"

definition share_rate :: "nat \<Rightarrow> nat \<Rightarrow> nat \<Rightarrow> js_num option" where
  "share_rate appOpened calculationsPerformed shareClicks =
     (if appOpened > 0 then
        (if shareClicks > 0
         then Some (toFixed 1 (times100 (count_div shareClicks calculationsPerformed)))
         else None)
      else None)"

record report =
  sessions_total :: nat
  users_total :: nat
  events_total :: nat
  events_per_session :: js_num
  by_type :: "(string \<times> tally) list"
  calculations_part :: "calc_report option"
  sliders_part :: "(string \<times> tally) list option"
  printed_conversion_rate :: "js_num option"
  printed_share_rate :: "js_num option"
  calculations_per_session :: js_num

datatype analysis = No_data | Report report

definition analyzeData :: "(rat \<Rightarrow> string) \<Rightarrow> store \<Rightarrow> error + analysis" where
  "analyzeData fmt s =
     (let lines = nonblank (events_file s) in
      if length lines = 0 then Inr No_data
      else
        bindE (mapE JSON_parse lines) (\<lambda>sessions.
        bindE (mapE session_events sessions) (\<lambda>per_session.
        let allEvents = concat per_session in
        bindE (mapE (\<lambda>session. get_prop session ''user_id'') sessions) (\<lambda>uids.
        bindE (mapE (\<lambda>session. get_prop session ''session_id'') sessions) (\<lambda>sids.
        let uniqueUsers = set_size (filter truthy uids);
            uniqueSessions = set_size sids
        in
        bindE (tally_by fmt event_name [] allEvents) (\<lambda>eventsByType.
        bindE (filterE (is_named ''calculation_performed'') allEvents) (\<lambda>calculations.
        bindE (calc_section calculations) (\<lambda>calc.
        bindE (filterE (is_named ''slider_changed'') allEvents) (\<lambda>sliderChanges.
        bindE (slider_section fmt sliderChanges) (\<lambda>sliders.
        let appOpened = count_of eventsByType ''app_opened'';
            calculationsPerformed = count_of eventsByType ''calculation_performed'';
            shareClicks = count_of eventsByType ''share_clicked''
        in
          Inr (Report
            \<lparr> sessions_total = uniqueSessions,
              users_total = uniqueUsers,
              events_total = length allEvents,
              events_per_session = toFixed 2 (count_div (length allEvents) uniqueSessions),
              by_type = eventsByType,
              calculations_part = calc,
              sliders_part = sliders,
              printed_conversion_rate = conversion_rate appOpened calculationsPerformed shareClicks,
              printed_share_rate = share_rate appOpened calculationsPerformed shareClicks,
              calculations_per_session =
                toFixed 2 (count_div calculationsPerformed uniqueSessions) \<rparr>)))))))))))"

section \<open>Quantities the properties speak of\<close>

text \<open>\<^verbatim>\<open>events.length\<close> of one persisted record, and the sum over the log.\<close>

fun record_events :: "line \<Rightarrow> nat" where
  "record_events (Text (Some r)) =
     (case get_prop r ''events'' of Inr (JArr es) \<Rightarrow> length es | _ \<Rightarrow> 0)"
| "record_events l = 0"

definition logged_events :: "store \<Rightarrow> nat" where
  "logged_events s = sum_list (map record_events (events_file s))"

text \<open>The user ids that \<^verbatim>\<open>unique_users\<close> holds.\<close>

fun users_list :: "users_field \<Rightarrow> json list" where
  "users_list (Users_array xs) = xs"
| "users_list u = []"

definition no_duplicate_users :: "store \<Rightarrow> bool" where
  "no_duplicate_users s = distinct (users_list (unique_users (stats_file s)))"

text \<open>A sequence of \<^verbatim>\<open>updateStats\<close> calls, each with its own file-system outcome; every
  call reads the stats file again.\<close>

fun updates :: "(io \<times> json) list \<Rightarrow> store \<Rightarrow> store" where
  "updates [] s = s"
| "updates ((env, data) # rest) s = updates rest (updateStats env data s)"

definition primitive_user_id :: "json \<Rightarrow> bool" where
  "primitive_user_id data =
     (case get_prop data ''user_id'' of Inl err \<Rightarrow> True | Inr uid \<Rightarrow> is_primitive uid)"

text \<open>The query values for which \<^verbatim>\<open>parseInt(req.query.limit) || 100\<close> falls back to
  100: no parameter, text that reads as no number, and text that reads as zero.\<close>

definition limit_defaults :: "string option \<Rightarrow> bool" where
  "limit_defaults q =
     (case q of None \<Rightarrow> True | Some t \<Rightarrow> parseInt t = None \<or> parseInt t = Some 0)"




















section \<open>Ingestion: what one request does to the store\<close>

lemma get_prop_Inr_cases:
  "get_prop body k = Inr v \<Longrightarrow> \<exists>w. get_prop body k' = Inr w"
  by (cases body) (auto split: option.splits)

text \<open>A body whose \<^verbatim>\<open>events\<close> is an array passes validation; the reply and the new
  store are then fixed by \<^verbatim>\<open>appendFile\<close>, \<^verbatim>\<open>updateStats\<close> and the final log line.\<close>

lemma ingest_accepted:
  assumes "get_prop body ''events'' = Inr (JArr evs)"
  obtains sid uid info where
    "get_prop body ''session_id'' = Inr sid"
    "get_prop body ''user_id'' = Inr uid"
    "get_prop body ''user_info'' = Inr info"
    "ingest env clock body s =
       (if append_ok env
        then (if stringifiable sid
              then Inr \<lparr> success = True, events_received = length evs \<rparr>
              else Inl (Http 500 ''Internal server error''),
              updateStats env (enrich clock sid uid info evs)
                (s\<lparr>events_file :=
                     events_file s @ [Text (Some (stored (enrich clock sid uid info evs)))]\<rparr>))
        else (Inl (Http 500 ''Internal server error''), s))"
proof -
  obtain sid where a: "get_prop body ''session_id'' = Inr sid"
    using get_prop_Inr_cases [OF assms] by blast
  obtain uid where b: "get_prop body ''user_id'' = Inr uid"
    using get_prop_Inr_cases [OF assms] by blast
  obtain info where c: "get_prop body ''user_info'' = Inr info"
    using get_prop_Inr_cases [OF assms] by blast
  have "ingest env clock body s =
       (if append_ok env
        then (if stringifiable sid
              then Inr \<lparr> success = True, events_received = length evs \<rparr>
              else Inl (Http 500 ''Internal server error''),
              updateStats env (enrich clock sid uid info evs)
                (s\<lparr>events_file :=
                     events_file s @ [Text (Some (stored (enrich clock sid uid info evs)))]\<rparr>))
        else (Inl (Http 500 ''Internal server error''), s))"
    by (simp add: ingest_def bindE_def js_not_def a b c assms Let_def)
  with a b c show ?thesis using that by blast
qed

text \<open>Any other body is refused, or the destructuring throws; the store is untouched.\<close>

lemma ingest_rejected:
  assumes "\<And>evs. get_prop body ''events'' \<noteq> Inr (JArr evs)"
  shows "snd (ingest env clock body s) = s \<and> isl (fst (ingest env clock body s))"
proof (cases "get_prop body ''events''")
  case (Inl e)
  then have "ingest env clock body s = (Inl (Http 500 ''Internal server error''), s)"
    by (cases body) (simp_all add: ingest_def bindE_def split: option.splits)
  then show ?thesis by simp
next
  case (Inr ev)
  obtain sid where a: "get_prop body ''session_id'' = Inr sid"
    using get_prop_Inr_cases [OF Inr] by blast
  obtain uid where b: "get_prop body ''user_id'' = Inr uid"
    using get_prop_Inr_cases [OF Inr] by blast
  obtain info where c: "get_prop body ''user_info'' = Inr info"
    using get_prop_Inr_cases [OF Inr] by blast
  from assms Inr have "\<not> isArray ev" by (cases ev) auto
  then have "ingest env clock body s = (Inl (Http 400 ''Invalid events data''), s)"
    by (cases ev) (simp_all add: ingest_def bindE_def js_not_def a b c Inr)
  then show ?thesis by simp
qed

lemma updateStats_events_file: "events_file (updateStats env data s) = events_file s"
  by (simp add: updateStats_def split: sum.splits)

text \<open>
  C4. A request body whose \<^verbatim>\<open>events\<close> property is missing or is not an array is
  answered with status 400 and the message \<^verbatim>\<open>Invalid events data\<close>, and neither the
  event log nor the stats file changes.
\<close>

theorem ingest_rejects_invalid_events:
  assumes "get_prop body ''events'' = Inr ev" and "\<not> isArray ev"
  shows "ingest env clock body s = (Inl (Http 400 ''Invalid events data''), s)"
proof -
  obtain a where a: "get_prop body ''session_id'' = Inr a"
    using get_prop_Inr_cases [OF assms(1)] by blast
  obtain b where b: "get_prop body ''user_id'' = Inr b"
    using get_prop_Inr_cases [OF assms(1)] by blast
  obtain c where c: "get_prop body ''user_info'' = Inr c"
    using get_prop_Inr_cases [OF assms(1)] by blast
  show ?thesis
    using assms(2) by (cases ev) (simp_all add: ingest_def bindE_def js_not_def a b c assms(1))
qed

theorem ingest_rejects_invalid_events_witness:
  "ingest \<lparr>append_ok = True, stats_read_ok = True, stats_write_ok = True\<rparr> (\<lambda>i. ''t'')
       (JObj [(''session_id'', JStr ''x'')]) init
     = (Inl (Http 400 ''Invalid events data''), init)
   \<and> ingest \<lparr>append_ok = True, stats_read_ok = True, stats_write_ok = True\<rparr> (\<lambda>i. ''t'')
       (JObj [(''session_id'', JStr ''x''), (''events'', JStr ''abc'')]) init
     = (Inl (Http 400 ''Invalid events data''), init)"
  using ingest_rejects_invalid_events
          [of "JObj [(''session_id'', JStr ''x'')]" JUndef
              "\<lparr>append_ok = True, stats_read_ok = True, stats_write_ok = True\<rparr>" "\<lambda>i. ''t''" init]
        ingest_rejects_invalid_events
          [of "JObj [(''session_id'', JStr ''x''), (''events'', JStr ''abc'')]" "JStr ''abc''"
              "\<lparr>append_ok = True, stats_read_ok = True, stats_write_ok = True\<rparr>" "\<lambda>i. ''t''" init]
  by simp

text \<open>
  C8. The stats are updated only on a store whose log already holds the batch: when
  \<^verbatim>\<open>appendFile\<close> fails the request ends in a failure reply with log and stats as they
  were, and whenever a request changes the stats file, the append succeeded and the new
  store is \<^verbatim>\<open>updateStats\<close> applied to the store with the record appended.
\<close>

theorem stats_follow_append:
  "(\<not> append_ok env \<longrightarrow>
      snd (ingest env clock body s) = s \<and> isl (fst (ingest env clock body s)))
   \<and> (stats_file (snd (ingest env clock body s)) \<noteq> stats_file s \<longrightarrow>
        append_ok env \<and>
        (\<exists>data. snd (ingest env clock body s) =
           updateStats env data
             (s\<lparr>events_file := events_file s @ [Text (Some (stored data))]\<rparr>)))"
proof (cases "\<exists>evs. get_prop body ''events'' = Inr (JArr evs)")
  case True
  then obtain evs where ev: "get_prop body ''events'' = Inr (JArr evs)" by blast
  from ingest_accepted [OF ev, of env clock s] obtain sid uid info where
    eq: "ingest env clock body s =
       (if append_ok env
        then (if stringifiable sid
              then Inr \<lparr> success = True, events_received = length evs \<rparr>
              else Inl (Http 500 ''Internal server error''),
              updateStats env (enrich clock sid uid info evs)
                (s\<lparr>events_file :=
                     events_file s @ [Text (Some (stored (enrich clock sid uid info evs)))]\<rparr>))
        else (Inl (Http 500 ''Internal server error''), s))"
    by blast
  show ?thesis
  proof (cases "append_ok env")
    case True
    with eq show ?thesis by auto
  next
    case False
    with eq show ?thesis by simp
  qed
next
  case False
  then have "\<And>evs. get_prop body ''events'' \<noteq> Inr (JArr evs)" by blast
  from ingest_rejected [OF this, of env clock s] show ?thesis by simp
qed

theorem stats_follow_append_witness:
  "snd (ingest \<lparr>append_ok = False, stats_read_ok = True, stats_write_ok = True\<rparr> (\<lambda>i. ''t'')
          (JObj [(''session_id'', JStr ''s1''),
                 (''events'', JArr [JObj [(''event_name'', JStr ''share_clicked'')]])]) init)
     = init
   \<and> append_ok \<lparr>append_ok = True, stats_read_ok = True, stats_write_ok = True\<rparr>
   \<and> (\<exists>data.
        snd (ingest \<lparr>append_ok = True, stats_read_ok = True, stats_write_ok = True\<rparr> (\<lambda>i. ''t'')
               (JObj [(''session_id'', JStr ''s1''),
                      (''events'', JArr [JObj [(''event_name'', JStr ''share_clicked'')]])]) init)
        = updateStats \<lparr>append_ok = True, stats_read_ok = True, stats_write_ok = True\<rparr> data
            (init\<lparr>events_file := events_file init @ [Text (Some (stored data))]\<rparr>))"
proof -
  have changed:
    "stats_file
       (snd (ingest \<lparr>append_ok = True, stats_read_ok = True, stats_write_ok = True\<rparr> (\<lambda>i. ''t'')
               (JObj [(''session_id'', JStr ''s1''),
                      (''events'', JArr [JObj [(''event_name'', JStr ''share_clicked'')]])]) init))
     \<noteq> stats_file init"
    by (simp add: ingest_def bindE_def js_not_def enrich_def enrich_event_def updateStats_def
        updateStats_try_def count_event_def add_user_def init_def)
  show ?thesis
    using changed
      stats_follow_append
        [of "\<lparr>append_ok = False, stats_read_ok = True, stats_write_ok = True\<rparr>" "\<lambda>i. ''t''"
            "JObj [(''session_id'', JStr ''s1''),
                   (''events'', JArr [JObj [(''event_name'', JStr ''share_clicked'')]])]" init]
      stats_follow_append
        [of "\<lparr>append_ok = True, stats_read_ok = True, stats_write_ok = True\<rparr>" "\<lambda>i. ''t''"
            "JObj [(''session_id'', JStr ''s1''),
                   (''events'', JArr [JObj [(''event_name'', JStr ''share_clicked'')]])]" init]
    by simp
qed

text \<open>
  C10. A body whose \<^verbatim>\<open>events\<close> is the empty array is accepted when the append
  succeeds and \<^verbatim>\<open>session_id\<close> converts to a string for the log line: exactly one
  record, with an empty \<^verbatim>\<open>events\<close> array, is appended to the log, and the reply is
  the success reply with \<^verbatim>\<open>events_received\<close> 0.
\<close>

theorem empty_batch_accepted:
  assumes "get_prop body ''events'' = Inr (JArr [])"
    and "append_ok env"
    and "get_prop body ''session_id'' = Inr sid" and "stringifiable sid"
  shows "fst (ingest env clock body s) = Inr \<lparr> success = True, events_received = 0 \<rparr>
       \<and> (\<exists>r. events_file (snd (ingest env clock body s)) = events_file s @ [Text (Some r)]
              \<and> get_prop r ''events'' = Inr (JArr []))"
proof -
  from ingest_accepted [OF assms(1), of env clock s] obtain sid' uid info where
    s: "get_prop body ''session_id'' = Inr sid'" and
    eq: "ingest env clock body s =
       (if append_ok env
        then (if stringifiable sid'
              then Inr \<lparr> success = True, events_received = length ([]::json list) \<rparr>
              else Inl (Http 500 ''Internal server error''),
              updateStats env (enrich clock sid' uid info [])
                (s\<lparr>events_file :=
                     events_file s @ [Text (Some (stored (enrich clock sid' uid info [])))]\<rparr>))
        else (Inl (Http 500 ''Internal server error''), s))"
    by blast
  from s assms(3) have "sid' = sid" by simp
  have ev: "get_prop (stored (enrich clock sid' uid info [])) ''events'' = Inr (JArr [])"
    by (simp add: enrich_def)
  show ?thesis
    using eq assms(2,4) \<open>sid' = sid\<close> ev by (auto simp: updateStats_events_file)
qed

theorem empty_batch_accepted_witness:
  "fst (ingest \<lparr>append_ok = True, stats_read_ok = True, stats_write_ok = True\<rparr> (\<lambda>i. ''t'')
          (JObj [(''session_id'', JStr ''s1''), (''events'', JArr [])]) init)
     = Inr \<lparr> success = True, events_received = 0 \<rparr>
   \<and> (\<exists>r. events_file
              (snd (ingest \<lparr>append_ok = True, stats_read_ok = True, stats_write_ok = True\<rparr>
                      (\<lambda>i. ''t'') (JObj [(''session_id'', JStr ''s1''), (''events'', JArr [])]) init))
            = events_file init @ [Text (Some r)]
          \<and> get_prop r ''events'' = Inr (JArr []))"
  using empty_batch_accepted [of "JObj [(''session_id'', JStr ''s1''), (''events'', JArr [])]"
      "\<lparr>append_ok = True, stats_read_ok = True, stats_write_ok = True\<rparr>" "JStr ''s1''"
      "\<lambda>i. ''t''" init]
  by simp

section \<open>The stats file against the log\<close>

lemma count_event_users:
  "count_event st e = Inr st' \<Longrightarrow> unique_users st' = unique_users st"
  by (auto simp: count_event_def bindE_def Let_def split: sum.splits if_splits)

lemma count_events_users:
  "count_events st es = Inr st' \<Longrightarrow> unique_users st' = unique_users st"
proof (induction es arbitrary: st)
  case Nil
  then show ?case by simp
next
  case (Cons e es)
  then show ?case
    by (auto split: sum.splits dest: count_event_users)
qed

lemma count_event_object:
  "\<exists>st'. count_event st (JObj kvs) = Inr st' \<and> total_events st' = total_events st"
  by (auto simp: count_event_def bindE_def Let_def split: option.splits)

lemma count_events_objects:
  "list_all (\<lambda>e. \<exists>kvs. e = JObj kvs) es \<Longrightarrow>
     \<exists>st'. count_events st es = Inr st' \<and> total_events st' = total_events st"
proof (induction es arbitrary: st)
  case Nil
  then show ?case by simp
next
  case (Cons e es)
  then obtain kvs where e: "e = JObj kvs" by auto
  from count_event_object [of st kvs] obtain st1 where
    s1: "count_event st (JObj kvs) = Inr st1" "total_events st1 = total_events st" by blast
  from Cons.IH [of st1] Cons.prems obtain st' where
    "count_events st1 es = Inr st'" "total_events st' = total_events st1" by auto
  with s1 e show ?case by simp
qed

lemma enrich_events:
  "get_prop (enrich clock sid uid info evs) ''events''
     = Inr (JArr (map (\<lambda>i. enrich_event clock i (evs ! i)) [0..<length evs]))"
  by (simp add: enrich_def)

lemma stored_enrich_events:
  "\<exists>es. get_prop (stored (enrich clock sid uid info evs)) ''events'' = Inr (JArr es)
        \<and> length es = length evs"
  by (simp add: enrich_def)

text \<open>A batch without a user id never reaches the \<^verbatim>\<open>unique_users\<close> block: when the
  file-system calls succeed, the stats gain exactly the events the log gains.\<close>

lemma updateStats_anonymous:
  assumes "\<not> truthy uid" and "stats_read_ok env" and "stats_write_ok env"
  shows "total_events (stats_file (updateStats env (enrich clock sid uid info evs) s))
           = total_events (stats_file s) + int (length evs)"
proof -
  let ?es = "map (\<lambda>i. enrich_event clock i (evs ! i)) [0..<length evs]"
  let ?st2 = "(stats_file s)\<lparr>total_sessions := total_sessions (stats_file s) + 1,
                 total_events := total_events (stats_file s) + int (length evs)\<rparr>"
  have "list_all (\<lambda>e. \<exists>kvs. e = JObj kvs) ?es"
    by (simp add: list_all_iff enrich_event_def)
  from count_events_objects [OF this, of ?st2] obtain st3 where
    st3: "count_events ?st2 ?es = Inr st3" "total_events st3 = total_events ?st2" by blast
  have u: "get_prop (enrich clock sid uid info evs) ''user_id'' = Inr uid"
    by (simp add: enrich_def)
  have "updateStats_try env (enrich clock sid uid info evs) (stats_file s) = Inr st3"
    using assms st3(1) u
    by (simp add: updateStats_try_def bindE_def enrich_events add_user_def)
  then show ?thesis using st3(2) by (simp add: updateStats_def)
qed

lemma anonymous_batch_keeps_totals_equal:
  assumes "get_prop body ''events'' = Inr (JArr evs)"
    and "get_prop body ''user_id'' = Inr uid" and "\<not> truthy uid"
    and "append_ok env" and "stats_read_ok env" and "stats_write_ok env"
  shows "int (logged_events (snd (ingest env clock body s)))
           = int (logged_events s) + int (length evs)
       \<and> total_events (stats_file (snd (ingest env clock body s)))
           = total_events (stats_file s) + int (length evs)"
proof -
  from ingest_accepted [OF assms(1), of env clock s] obtain sid uid' info where
    u: "get_prop body ''user_id'' = Inr uid'" and
    eq: "ingest env clock body s =
       (if append_ok env
        then (if stringifiable sid
              then Inr \<lparr> success = True, events_received = length evs \<rparr>
              else Inl (Http 500 ''Internal server error''),
              updateStats env (enrich clock sid uid' info evs)
                (s\<lparr>events_file :=
                     events_file s @ [Text (Some (stored (enrich clock sid uid' info evs)))]\<rparr>))
        else (Inl (Http 500 ''Internal server error''), s))"
    by blast
  from u assms(2) have uu: "uid' = uid" by simp
  obtain es where
    es: "get_prop (stored (enrich clock sid uid info evs)) ''events'' = Inr (JArr es)"
      "length es = length evs"
    using stored_enrich_events by blast
  have l: "logged_events (snd (ingest env clock body s)) = logged_events s + length evs"
    using eq assms(4) uu es
    by (simp add: logged_events_def updateStats_events_file)
  have t: "total_events (stats_file (snd (ingest env clock body s)))
           = total_events (stats_file s) + int (length evs)"
    using eq assms(4) uu updateStats_anonymous [OF assms(3,5,6), of clock sid info evs]
    by simp
  show ?thesis using l t by simp
qed

text \<open>
  C1. On a freshly initialized store, a batch that carries a user id is accepted and
  logged, but \<^verbatim>\<open>updateStats\<close> throws on the \<^verbatim>\<open>{}\<close> that \<^verbatim>\<open>init\<close> stored as
  \<^verbatim>\<open>unique_users\<close> and leaves the stats file as it was: the log then holds one event
  and \<^verbatim>\<open>total_events\<close> is still 0, whatever the clock.
\<close>

theorem fresh_store_stats_miss_batch_with_user:
  "(let r = ingest \<lparr>append_ok = True, stats_read_ok = True, stats_write_ok = True\<rparr> clock
              (JObj [(''session_id'', JStr ''s1''), (''user_id'', JStr ''u1''),
                     (''events'', JArr [JObj [(''event_name'', JStr ''app_opened'')]])]) init
    in (fst r, logged_events (snd r), total_events (stats_file (snd r))))
   = (Inr \<lparr> success = True, events_received = 1 \<rparr>, 1, 0)"
  by (simp add: ingest_def bindE_def js_not_def enrich_def enrich_event_def updateStats_def
        updateStats_try_def count_event_def add_user_def init_def logged_events_def)

subsection \<open>The user list\<close>

lemma updateStats_try_users:
  assumes "updateStats_try env data st = Inr st'"
  obtains st3 uid where "unique_users st3 = unique_users st"
    and "get_prop data ''user_id'' = Inr uid" and "add_user st3 uid = Inr st'"
  using assms
  by (auto simp: updateStats_try_def bindE_def Let_def split: sum.splits if_splits
      dest!: count_events_users)

lemma add_user_distinct:
  assumes "add_user st uid = Inr st'" and "is_primitive uid"
    and "distinct (users_list (unique_users st))"
  shows "distinct (users_list (unique_users st'))"
  using assms
  by (auto simp: add_user_def js_includes_def split: if_splits users_field.splits)

lemma add_user_member:
  assumes "add_user st uid = Inr st'" and "is_primitive uid"
    and "uid \<in> set (users_list (unique_users st))"
  shows "unique_users st' = unique_users st"
  using assms
  by (auto simp: add_user_def js_includes_def split: if_splits users_field.splits)

lemma updateStats_no_duplicates:
  assumes "primitive_user_id data" and "no_duplicate_users s"
  shows "no_duplicate_users (updateStats env data s)"
proof (cases "updateStats_try env data (stats_file s)")
  case (Inl e)
  then show ?thesis using assms(2) by (simp add: updateStats_def)
next
  case (Inr st')
  from updateStats_try_users [OF Inr] obtain st3 uid where
    u: "unique_users st3 = unique_users (stats_file s)"
    and g: "get_prop data ''user_id'' = Inr uid" and a: "add_user st3 uid = Inr st'"
    by blast
  from assms(1) g have "is_primitive uid" by (simp add: primitive_user_id_def)
  from add_user_distinct [OF a this] u assms(2)
  have "distinct (users_list (unique_users st'))" by (simp add: no_duplicate_users_def)
  then show ?thesis using Inr by (simp add: updateStats_def no_duplicate_users_def)
qed

lemma updates_no_duplicates:
  assumes "list_all (\<lambda>c. primitive_user_id (snd c)) calls" and "no_duplicate_users s"
  shows "no_duplicate_users (updates calls s)"
  using assms
proof (induction calls arbitrary: s)
  case Nil
  then show ?case by simp
next
  case (Cons c calls)
  obtain env data where c: "c = (env, data)" by (cases c)
  from Cons.prems c have "primitive_user_id data" by simp
  from updateStats_no_duplicates [OF this Cons.prems(2)]
  have "no_duplicate_users (updateStats env data s)" .
  with Cons.IH Cons.prems(1) c show ?case by simp
qed

lemma updateStats_known_user:
  assumes "get_prop data ''user_id'' = Inr uid" and "is_primitive uid"
    and "uid \<in> set (users_list (unique_users (stats_file s)))"
  shows "unique_users (stats_file (updateStats env data s)) = unique_users (stats_file s)"
proof (cases "updateStats_try env data (stats_file s)")
  case (Inl e)
  then show ?thesis by (simp add: updateStats_def)
next
  case (Inr st')
  from updateStats_try_users [OF Inr] obtain st3 uid' where
    u: "unique_users st3 = unique_users (stats_file s)"
    and g: "get_prop data ''user_id'' = Inr uid'" and a: "add_user st3 uid' = Inr st'"
    by blast
  from g assms(1) have "uid' = uid" by simp
  with add_user_member [OF a] assms(2,3) u have "unique_users st' = unique_users (stats_file s)"
    by simp
  then show ?thesis using Inr by (simp add: updateStats_def)
qed

text \<open>
  C6. Starting from a stats file whose \<^verbatim>\<open>unique_users\<close> holds no value twice, any
  sequence of \<^verbatim>\<open>updateStats\<close> calls (each one reads the file again, and each one's
  file-system calls may fail or not) with user ids that are primitive values (strings,
  numbers, booleans, \<^verbatim>\<open>null\<close>, or none) leaves it without duplicates; and a call whose
  user id is already in the list leaves the list as it is.
\<close>

theorem unique_users_stay_distinct:
  assumes "list_all (\<lambda>c. primitive_user_id (snd c)) calls" and "no_duplicate_users s"
  shows "no_duplicate_users (updates calls s)
       \<and> (get_prop data ''user_id'' = Inr uid \<and> is_primitive uid
            \<and> uid \<in> set (users_list (unique_users (stats_file s)))
          \<longrightarrow> unique_users (stats_file (updateStats env data s)) = unique_users (stats_file s))"
  using updates_no_duplicates [OF assms] updateStats_known_user [of data uid s env] by blast

theorem unique_users_stay_distinct_witness:
  "no_duplicate_users
     (updates
        [(\<lparr>append_ok = True, stats_read_ok = True, stats_write_ok = True\<rparr>,
          JObj [(''user_id'', JStr ''u1''), (''events'', JArr [])]),
         (\<lparr>append_ok = True, stats_read_ok = True, stats_write_ok = True\<rparr>,
          JObj [(''user_id'', JStr ''u2''), (''events'', JArr [])]),
         (\<lparr>append_ok = True, stats_read_ok = True, stats_write_ok = True\<rparr>,
          JObj [(''user_id'', JStr ''u2''), (''events'', JArr [])])]
        \<lparr> events_file = [],
          stats_file = \<lparr> total_sessions = 1, total_events = 0, total_calculations = 0,
                         total_shares = 0, unique_users = Users_array [JStr ''u1''] \<rparr> \<rparr>)
   \<and> unique_users (stats_file
        (updateStats \<lparr>append_ok = True, stats_read_ok = True, stats_write_ok = True\<rparr>
           (JObj [(''user_id'', JStr ''u1''), (''events'', JArr [])])
           \<lparr> events_file = [],
             stats_file = \<lparr> total_sessions = 1, total_events = 0, total_calculations = 0,
                            total_shares = 0, unique_users = Users_array [JStr ''u1''] \<rparr> \<rparr>))
     = Users_array [JStr ''u1'']"
  using unique_users_stay_distinct
    [of "[(\<lparr>append_ok = True, stats_read_ok = True, stats_write_ok = True\<rparr>,
          JObj [(''user_id'', JStr ''u1''), (''events'', JArr [])]),
         (\<lparr>append_ok = True, stats_read_ok = True, stats_write_ok = True\<rparr>,
          JObj [(''user_id'', JStr ''u2''), (''events'', JArr [])]),
         (\<lparr>append_ok = True, stats_read_ok = True, stats_write_ok = True\<rparr>,
          JObj [(''user_id'', JStr ''u2''), (''events'', JArr [])])]"
        "\<lparr> events_file = [],
          stats_file = \<lparr> total_sessions = 1, total_events = 0, total_calculations = 0,
                         total_shares = 0, unique_users = Users_array [JStr ''u1''] \<rparr> \<rparr>"
        "JObj [(''user_id'', JStr ''u1''), (''events'', JArr [])]" "JStr ''u1''"
        "\<lparr>append_ok = True, stats_read_ok = True, stats_write_ok = True\<rparr>"]
  by (simp add: primitive_user_id_def no_duplicate_users_def)

section \<open>Scanning the log\<close>

lemma mapE_drop:
  "mapE f xs = Inr ys \<Longrightarrow> mapE f (drop k xs) = Inr (drop k ys)"
proof (induction xs arbitrary: ys k)
  case Nil
  then show ?case by simp
next
  case (Cons x xs)
  then show ?case
    by (cases k) (auto split: sum.splits)
qed

lemma mapE_length: "mapE f xs = Inr ys \<Longrightarrow> length ys = length xs"
  by (induction xs arbitrary: ys) (auto split: sum.splits)



lemma js_slice_last: "0 < k \<Longrightarrow> js_slice_from (- k) xs = drop (length xs - nat k) xs"
proof -
  assume k: "0 < k"
  have "nat (max (int (length xs) - k) 0) = length xs - nat k"
    using k by linarith
  with k show ?thesis by (simp add: js_slice_from_def Let_def)
qed

lemma parseInt_undefined: "parseInt ''undefined'' = None"
  by code_simp

lemma recent_limit_default: "limit_defaults q \<Longrightarrow> recent_limit q = 100"
  by (auto simp: limit_defaults_def recent_limit_def parseInt_undefined split: option.splits)

text \<open>
  C9. When the \<^verbatim>\<open>limit\<close> parameter is absent, reads as no number or reads as zero, and
  every line of the log decodes, the recent-events reply holds the last
  \<open>min 100 n\<close> of the \<open>n\<close> records, in log order; so \<^verbatim>\<open>limit=0\<close> returns up to 100
  records, not none.
\<close>

theorem recent_default_limit:
  assumes "limit_defaults q" and "readAll s = Inr parsed"
  shows "recent q s =
           Inr \<lparr> count = min 100 (length parsed), events = drop (length parsed - 100) parsed \<rparr>"
proof -
  let ?lines = "nonblank (events_file s)"
  have len: "length parsed = length ?lines"
    using assms(2) by (simp add: readAll_def mapE_length)
  have sl: "js_slice_from (- recent_limit q) ?lines = drop (length ?lines - 100) ?lines"
    using js_slice_last [of 100 ?lines] recent_limit_default [OF assms(1)] by simp
  have "mapE JSON_parse (drop (length ?lines - 100) ?lines)
          = Inr (drop (length ?lines - 100) parsed)"
    using assms(2) by (simp add: readAll_def mapE_drop)
  then show ?thesis
    by (simp add: recent_def Let_def sl len min_def)
qed

theorem recent_default_limit_witness:
  "limit_defaults (Some ''0'') \<and> limit_defaults None \<and> limit_defaults (Some ''abc'')
   \<and> recent (Some ''0'')
        \<lparr> events_file = [Text (Some (JNum 1)), Blank, Text (Some (JNum 2))],
          stats_file = stats_file init \<rparr>
       = Inr \<lparr> count = 2, events = [JNum 1, JNum 2] \<rparr>"
proof -
  have a: "limit_defaults (Some ''0'')" by code_simp
  have b: "limit_defaults (Some ''abc'')" by code_simp
  have c: "limit_defaults None" by (simp add: limit_defaults_def)
  have r: "readAll \<lparr> events_file = [Text (Some (JNum 1)), Blank, Text (Some (JNum 2))],
                     stats_file = stats_file init \<rparr> = Inr [JNum 1, JNum 2]"
    by (simp add: readAll_def nonblank_def)
  show ?thesis
    using a b c recent_default_limit [OF a r] by simp
qed

section \<open>Identifiers: numbers and their digits\<close>

subsection \<open>Doubles hold integers below 2^53 exactly\<close>





subsection \<open>The decimal digits of a natural number read back as that number\<close>


















subsection \<open>The per-user rollup\<close>







subsection \<open>A line that does not decode\<close>

lemma mapE_JSON_parse_bad:
  "Text None \<in> set ls \<Longrightarrow> mapE JSON_parse ls = Inl SyntaxError"
proof (induction ls)
  case Nil
  then show ?case by simp
next
  case (Cons l ls)
  show ?case
  proof (cases l)
    case Blank
    then show ?thesis by simp
  next
    case (Text v)
    then show ?thesis using Cons by (cases v) (auto split: sum.splits)
  qed
qed

lemma readAll_bad:
  "Text None \<in> set (events_file s) \<Longrightarrow> readAll s = Inl SyntaxError"
  by (simp add: readAll_def nonblank_def mapE_JSON_parse_bad)

text \<open>The dashboard on a log of one good record followed by a line that does not decode:
  the reply is the 500 failure, not a result from the good record.\<close>

theorem dashboard_fails_on_undecodable_record:
  "dashboard (\<lambda>n. ''0'') ''t''
     \<lparr> events_file =
         [Text (Some (JObj [(''events'', JArr [JObj [(''event_name'', JStr ''app_opened'')]])])),
          Text None],
       stats_file = stats_file init \<rparr>
   = Inl (Http 500 ''Failed to generate dashboard'')"
  by (simp add: dashboard_def readAll_def nonblank_def bindE_def)

text \<open>
  C2, as the code has it. A full-log scan maps \<^verbatim>\<open>JSON.parse\<close> over every non-empty
  line with no recovery per record: if the log holds a line that does not decode, the
  scan ends with its SyntaxError, the dashboard and the per-user query answer with their
  500 failure, and the analyzer ends in its \<^verbatim>\<open>catch\<close> with no report.
\<close>

theorem undecodable_record_aborts_scan:
  assumes "Text None \<in> set (events_file s)"
  shows "readAll s = Inl SyntaxError
       \<and> dashboard fmt now s = Inl (Http 500 ''Failed to generate dashboard'')
       \<and> user_rollup fmt q s = Inl (Http 500 ''Failed to read user data'')
       \<and> analyzeData fmt s = Inl SyntaxError"
proof -
  have r: "readAll s = Inl SyntaxError" using assms by (rule readAll_bad)
  then have m: "mapE JSON_parse (nonblank (events_file s)) = Inl SyntaxError"
    by (simp add: readAll_def)
  have ne: "nonblank (events_file s) \<noteq> []"
    using m by auto
  show ?thesis
    using r m ne by (simp add: dashboard_def user_rollup_def analyzeData_def bindE_def Let_def)
qed

theorem undecodable_record_aborts_scan_witness:
  "readAll \<lparr> events_file = [Text (Some (JObj [(''events'', JArr [])])), Text None],
              stats_file = stats_file init \<rparr> = Inl SyntaxError
   \<and> user_rollup (\<lambda>n. ''0'') ''u1''
        \<lparr> events_file = [Text (Some (JObj [(''events'', JArr [])])), Text None],
          stats_file = stats_file init \<rparr>
      = Inl (Http 500 ''Failed to read user data'')
   \<and> analyzeData (\<lambda>n. ''0'')
        \<lparr> events_file = [Text (Some (JObj [(''events'', JArr [])])), Text None],
          stats_file = stats_file init \<rparr>
      = Inl SyntaxError"
  using undecodable_record_aborts_scan
    [of "\<lparr> events_file = [Text (Some (JObj [(''events'', JArr [])])), Text None],
           stats_file = stats_file init \<rparr>" "\<lambda>n. ''0''" "''t''" "''u1''"]
  by simp


section \<open>Numeric aggregates and the conversion rates\<close>

subsection \<open>Typed logs\<close>









































text \<open>The two guards of the conversion section: without an \<^verbatim>\<open>app_opened\<close> event
  neither rate is printed; with one, a share and no calculation, the share rate is
  printed as an infinite percentage.\<close>

lemma rates_without_app_opened:
  "conversion_rate 0 calculationsPerformed shareClicks = None
   \<and> share_rate 0 calculationsPerformed shareClicks = None"
  by (simp add: conversion_rate_def share_rate_def)

lemma share_rate_without_calculations:
  "0 < appOpened \<Longrightarrow> 0 < shareClicks \<Longrightarrow> share_rate appOpened 0 shareClicks = Some Infinity"
  by (simp add: share_rate_def count_div_def)

text \<open>
  C5. The analyzer on a log with one \<^verbatim>\<open>app_opened\<close> event, one \<^verbatim>\<open>share_clicked\<close>
  event and no \<^verbatim>\<open>calculation_performed\<close> event: the share rate is printed, and it is
  the infinite quotient of one share by zero calculations.
\<close>

theorem share_rate_divides_by_zero_calculations:
  "analyzeData (\<lambda>n. ''0'')
     \<lparr> events_file =
         [Text (Some (JObj [(''session_id'', JStr ''s1''),
            (''events'', JArr
               [JObj [(''event_name'', JStr ''app_opened'')],
                JObj [(''event_name'', JStr ''share_clicked'')]])]))],
       stats_file = stats_file init \<rparr>
   = Inr (Report
       \<lparr> sessions_total = 1, users_total = 0, events_total = 2,
          events_per_session = Num 2,
          by_type = [(''app_opened'', Count 1), (''share_clicked'', Count 1)],
          calculations_part = None, sliders_part = None,
          printed_conversion_rate = Some (Num 0),
          printed_share_rate = Some Infinity,
          calculations_per_session = Num 0 \<rparr>)"
  by code_simp

end
